theory Spec2Isabelle
  imports Complex_Main "HOL-Library.Multiset"
begin

section \<open>Data model\<close>

text \<open>
  The storefront's cart context (\<^verbatim>\<open>CartContext\<close>), with its normalizer
  \<^verbatim>\<open>optimizeCartItems\<close>, the delivery packer \<^verbatim>\<open>packForDelivery\<close> and the cart
  mutations, and the recommendation hook \<^verbatim>\<open>useRecommendations\<close>.

  Numbers. A JavaScript \<^verbatim>\<open>number\<close> that carries a price, a weight, a volume or a score is
  modelled as an exact \<^typ>\<open>real\<close>; a quantity and a result-count option as \<^typ>\<open>int\<close>.
  Rounding, infinities and \<^verbatim>\<open>NaN\<close> in these fields are outside the model. A product
  identity is the value of \<^verbatim>\<open>Number(p.id)\<close>: \<^term>\<open>Some n\<close> for an integer and
  \<^term>\<open>None\<close> when the conversion yields \<^verbatim>\<open>NaN\<close> (a non-numeric id). An optional
  field is an \<^typ>\<open>'a option\<close>, \<^term>\<open>None\<close> standing for \<^verbatim>\<open>undefined\<close>.
\<close>

datatype tags_field = TagsArray "string list" | TagsString string

record Product =
  id' :: "int option"
  name :: string
  image :: string
  category :: string
  description :: string
  price :: real
  weightKg :: "real option"
  volumeCm3 :: "real option"
  tags :: "tags_field option"
  onSale :: "bool option"
  salePrice :: "real option"

record CartItem = Product +
  quantity :: int

section \<open>Array.prototype.sort\<close>

text \<open>
  \<^verbatim>\<open>Array.prototype.sort\<close> is stable, and with a consistent comparator its result is
  the one stable sorted arrangement. It is modelled as the stable insertion sort driven
  by the comparator of the call site: an element goes in front of the first element it
  does not compare greater than.
\<close>

fun insort_cmp :: "('a \<Rightarrow> 'a \<Rightarrow> real) \<Rightarrow> 'a \<Rightarrow> 'a list \<Rightarrow> 'a list" where
  "insort_cmp cmp x [] = [x]"
| "insort_cmp cmp x (y # ys) =
     (if cmp x y \<le> 0 then x # y # ys else y # insort_cmp cmp x ys)"

definition js_sort :: "('a \<Rightarrow> 'a \<Rightarrow> real) \<Rightarrow> 'a list \<Rightarrow> 'a list" where
  "js_sort cmp xs = foldr (insort_cmp cmp) xs []"

section \<open>Cart normalizer\<close>

text \<open>
  \<^verbatim>\<open>optimizeCartItems\<close>: drop the lines whose quantity is not positive, then sort a copy
  by \<^verbatim>\<open>a.price / a.quantity - b.price / b.quantity\<close>.
\<close>

definition efficiency :: "CartItem \<Rightarrow> real" where
  "efficiency a = price a / real_of_int (quantity a)"

definition optimizeCartItems :: "CartItem list \<Rightarrow> CartItem list" where
  "optimizeCartItems cartItems =
     js_sort (\<lambda>a b. efficiency a - efficiency b)
       (filter (\<lambda>item. quantity item > 0) cartItems)"

text \<open>The recursive form of "every adjacent pair is ascending in price / quantity".\<close>

fun ascending_efficiency :: "CartItem list \<Rightarrow> bool" where
  "ascending_efficiency [] = True"
| "ascending_efficiency [a] = True"
| "ascending_efficiency (a # b # rest) =
     (price a / real_of_int (quantity a) \<le> price b / real_of_int (quantity b)
      \<and> ascending_efficiency (b # rest))"

section \<open>Cart mutations\<close>

text \<open>
  Each mutation is the function handed to \<^verbatim>\<open>setItems\<close>: from the current list to the
  next one. \<^verbatim>\<open>Date.now()\<close> is the argument \<open>now\<close>. The toast notifications are
  not modelled.
\<close>

fun findIndex :: "('a \<Rightarrow> bool) \<Rightarrow> 'a list \<Rightarrow> nat option" where
  "findIndex P [] = None"
| "findIndex P (x # xs) = (if P x then Some 0 else map_option Suc (findIndex P xs))"

text \<open>The default parameter \<^verbatim>\<open>quantity = 1\<close>.\<close>

definition defaultQuantity :: "int option \<Rightarrow> int" where
  "defaultQuantity q = (case q of None \<Rightarrow> 1 | Some n \<Rightarrow> n)"

text \<open>\<^verbatim>\<open>Number.isNaN(parsedId) ? -Date.now() : parsedId\<close>\<close>

definition normalizedId :: "Product \<Rightarrow> int \<Rightarrow> int" where
  "normalizedId product now = (case id' product of None \<Rightarrow> - now | Some parsedId \<Rightarrow> parsedId)"

text \<open>\<^verbatim>\<open>{ ...product, id: normalizedId, quantity }\<close>\<close>

definition newItem :: "Product \<Rightarrow> int \<Rightarrow> int \<Rightarrow> CartItem" where
  "newItem product nid qty =
     \<lparr>id' = Some nid, name = name product, image = image product,
      category = category product, description = description product,
      price = price product, weightKg = weightKg product, volumeCm3 = volumeCm3 product,
      tags = tags product, onSale = onSale product, salePrice = salePrice product,
      quantity = qty\<rparr>"

definition addToCart :: "Product \<Rightarrow> int option \<Rightarrow> int \<Rightarrow> CartItem list \<Rightarrow> CartItem list" where
  "addToCart product q now currentItems =
     (case findIndex (\<lambda>it. id' it = Some (normalizedId product now)) currentItems of
        Some existingIndex \<Rightarrow>
          optimizeCartItems
            (map (\<lambda>(i, it). if i = existingIndex
                              then it\<lparr>quantity := quantity it + defaultQuantity q\<rparr> else it)
               (enumerate 0 currentItems))
      | None \<Rightarrow>
          optimizeCartItems
            (currentItems @ [newItem product (normalizedId product now) (defaultQuantity q)]))"

definition removeFromCart :: "int \<Rightarrow> CartItem list \<Rightarrow> CartItem list" where
  "removeFromCart productId currentItems =
     optimizeCartItems (filter (\<lambda>it. id' it \<noteq> Some productId) currentItems)"

definition updateQuantity :: "int \<Rightarrow> int \<Rightarrow> CartItem list \<Rightarrow> CartItem list" where
  "updateQuantity productId qty currentItems =
     (if qty \<le> 0 then removeFromCart productId currentItems
      else optimizeCartItems
             (map (\<lambda>it. if id' it = Some productId then it\<lparr>quantity := qty\<rparr> else it)
                currentItems))"

section \<open>Sample data\<close>

definition sample_line :: "int \<Rightarrow> string \<Rightarrow> real \<Rightarrow> int \<Rightarrow> CartItem" where
  "sample_line i n p q =
     \<lparr>id' = Some i, name = n, image = [], category = ''vegetables'', description = [],
      price = p, weightKg = None, volumeCm3 = None, tags = None, onSale = None,
      salePrice = None, quantity = q\<rparr>"

definition sample_product :: "string \<Rightarrow> Product" where
  "sample_product n =
     \<lparr>id' = None, name = n, image = [], category = ''vegetables'', description = [],
      price = 50, weightKg = None, volumeCm3 = None, tags = None, onSale = None,
      salePrice = None\<rparr>"

definition unsorted_cart :: "CartItem list" where
  "unsorted_cart = [sample_line 1 ''kale'' 90 2, sample_line 3 ''chard'' 10 0,
     sample_line 2 ''yam'' 40 4]"

section \<open>Delivery packer\<close>

record pack_options =
  maxWeightKg :: "real option"
  maxVolumeCm3 :: "real option"

text \<open>
  A delivery box. Its \<open>items\<close> are the units put into it: cart lines themselves in
  the value view of the packer, references to line objects in the store view below.
\<close>

record 'u box =
  boxId :: nat
  items :: "'u list"
  totalWeightKg :: real
  totalVolumeCm3 :: real

text \<open>\<^verbatim>\<open>options?.maxWeightKg ?? 10\<close> and \<^verbatim>\<open>options?.maxVolumeCm3 ?? 40000\<close>\<close>

definition maxWeightKg_of :: "pack_options option \<Rightarrow> real" where
  "maxWeightKg_of options =
     (case options of None \<Rightarrow> 10
      | Some opts \<Rightarrow> (case maxWeightKg opts of None \<Rightarrow> 10 | Some w \<Rightarrow> w))"

definition maxVolumeCm3_of :: "pack_options option \<Rightarrow> real" where
  "maxVolumeCm3_of options =
     (case options of None \<Rightarrow> 40000
      | Some opts \<Rightarrow> (case maxVolumeCm3 opts of None \<Rightarrow> 40000 | Some v \<Rightarrow> v))"

text \<open>
  The expansion loop \<^verbatim>\<open>for (let i = 0; i < it.quantity; i++) expanded.push({ ...it, quantity: 1 })\<close>.
\<close>

function expand_line :: "int \<Rightarrow> CartItem \<Rightarrow> CartItem list \<Rightarrow> CartItem list" where
  "expand_line i it expanded =
     (if i < quantity it then expand_line (i + 1) it (expanded @ [it\<lparr>quantity := 1\<rparr>])
      else expanded)"
  by pat_completeness auto
termination
  by (relation "measure (\<lambda>(i, it, expanded). nat (quantity it - i))") auto

definition expand :: "CartItem list \<Rightarrow> CartItem list" where
  "expand cart = fold (\<lambda>it expanded. expand_line 0 it expanded) cart []"

definition metric :: "CartItem \<Rightarrow> real" where
  "metric it =
     (case volumeCm3 it of Some v \<Rightarrow> v
      | None \<Rightarrow> (case weightKg it of Some w \<Rightarrow> w * 1000 | None \<Rightarrow> 0))"

text \<open>\<^verbatim>\<open>unit.weightKg ?? 0\<close> and \<^verbatim>\<open>unit.volumeCm3 ?? 0\<close>\<close>

definition unitWeight :: "CartItem \<Rightarrow> real" where
  "unitWeight unit = (case weightKg unit of None \<Rightarrow> 0 | Some w \<Rightarrow> w)"

definition unitVolume :: "CartItem \<Rightarrow> real" where
  "unitVolume unit = (case volumeCm3 unit of None \<Rightarrow> 0 | Some v \<Rightarrow> v)"

text \<open>
  The inner loop over the boxes, in creation order: the unit goes into the first box
  that passes both capacity checks, and the loop stops there. \<^term>\<open>None\<close> is
  \<^verbatim>\<open>placed === false\<close>. The function \<open>look\<close> reads the line a unit stands for.
\<close>

fun try_place ::
  "('u \<Rightarrow> CartItem) \<Rightarrow> real \<Rightarrow> real \<Rightarrow> 'u \<Rightarrow> 'u box list \<Rightarrow> 'u box list option" where
  "try_place look maxW maxV unit [] = None"
| "try_place look maxW maxV unit (b # bs) =
     (if totalWeightKg b + unitWeight (look unit) \<le> maxW
         \<and> totalVolumeCm3 b + unitVolume (look unit) \<le> maxV
      then Some (b\<lparr>items := items b @ [unit],
                   totalWeightKg := totalWeightKg b + unitWeight (look unit),
                   totalVolumeCm3 := totalVolumeCm3 b + unitVolume (look unit)\<rparr> # bs)
      else map_option ((#) b) (try_place look maxW maxV unit bs))"

definition place_unit ::
  "('u \<Rightarrow> CartItem) \<Rightarrow> real \<Rightarrow> real \<Rightarrow> 'u \<Rightarrow> 'u box list \<Rightarrow> 'u box list" where
  "place_unit look maxW maxV unit boxes =
     (case try_place look maxW maxV unit boxes of
        Some boxes' \<Rightarrow> boxes'
      | None \<Rightarrow>
          boxes @ [\<lparr>boxId = length boxes + 1, items = [unit],
                    totalWeightKg = unitWeight (look unit),
                    totalVolumeCm3 = unitVolume (look unit)\<rparr>])"

definition pack_units ::
  "('u \<Rightarrow> CartItem) \<Rightarrow> real \<Rightarrow> real \<Rightarrow> 'u list \<Rightarrow> 'u box list" where
  "pack_units look maxW maxV expanded =
     fold (place_unit look maxW maxV)
       (js_sort (\<lambda>a b. metric (look b) - metric (look a)) expanded) []"

text \<open>The value view: the cart is a list of lines, a unit is its line.\<close>

definition packForDelivery :: "CartItem list \<Rightarrow> pack_options option \<Rightarrow> CartItem box list" where
  "packForDelivery cart options =
     pack_units (\<lambda>unit. unit) (maxWeightKg_of options) (maxVolumeCm3_of options) (expand cart)"

subsection \<open>The packer over a store of objects\<close>

text \<open>
  The same function with the objects made explicit. The store \<open>objects\<close> holds the
  line objects, an address is an index into it, and the cart state \<open>itemsRef\<close> is the
  array of addresses. \<^verbatim>\<open>{ ...it, quantity: 1 }\<close> allocates a new object at the end
  of the store; \<^verbatim>\<open>expanded\<close>, the sorted copy and the boxes hold addresses.
\<close>

record cart_store =
  objects :: "CartItem list"
  itemsRef :: "nat list"

function expand_line_store ::
  "int \<Rightarrow> CartItem \<Rightarrow> CartItem list \<times> nat list \<Rightarrow> CartItem list \<times> nat list" where
  "expand_line_store i it (objs, expanded) =
     (if i < quantity it
      then expand_line_store (i + 1) it (objs @ [it\<lparr>quantity := 1\<rparr>], expanded @ [length objs])
      else (objs, expanded))"
  by pat_completeness auto
termination
  by (relation "measure (\<lambda>(i, it, acc). nat (quantity it - i))") auto

definition expand_store :: "CartItem list \<Rightarrow> nat list \<Rightarrow> CartItem list \<times> nat list" where
  "expand_store objs refs =
     fold (\<lambda>a (objs', expanded). expand_line_store 0 (objs' ! a) (objs', expanded))
       refs (objs, [])"

definition packForDelivery_store ::
  "cart_store \<Rightarrow> pack_options option \<Rightarrow> nat box list \<times> cart_store" where
  "packForDelivery_store st options =
     (case expand_store (objects st) (itemsRef st) of
        (objs', expanded) \<Rightarrow>
          (pack_units (\<lambda>a. objs' ! a) (maxWeightKg_of options) (maxVolumeCm3_of options)
             expanded,
           st\<lparr>objects := objs'\<rparr>))"

text \<open>A box of addresses read through the store.\<close>

definition box_values :: "CartItem list \<Rightarrow> nat box \<Rightarrow> CartItem box" where
  "box_values objs b =
     \<lparr>boxId = boxId b, items = map (\<lambda>a. objs ! a) (items b),
      totalWeightKg = totalWeightKg b, totalVolumeCm3 = totalVolumeCm3 b\<rparr>"

subsection \<open>Predicates of the statements and sample data\<close>

definition parcel :: "int \<Rightarrow> string \<Rightarrow> real option \<Rightarrow> real option \<Rightarrow> int \<Rightarrow> CartItem" where
  "parcel i n w v q =
     \<lparr>id' = Some i, name = n, image = [], category = ''vegetables'', description = [],
      price = 10, weightKg = w, volumeCm3 = v, tags = None, onSale = None,
      salePrice = None, quantity = q\<rparr>"

text \<open>The units of one line: as many copies of quantity 1 as the line's quantity.\<close>

definition unit_copies :: "CartItem \<Rightarrow> CartItem list" where
  "unit_copies it = replicate (nat (quantity it)) (it\<lparr>quantity := 1\<rparr>)"

definition within_capacity :: "real \<Rightarrow> real \<Rightarrow> 'u box \<Rightarrow> bool" where
  "within_capacity maxW maxV b \<longleftrightarrow> totalWeightKg b \<le> maxW \<and> totalVolumeCm3 b \<le> maxV"

definition box_ok :: "real \<Rightarrow> real \<Rightarrow> 'u box \<Rightarrow> bool" where
  "box_ok maxW maxV b \<longleftrightarrow> length (items b) = 1 \<or> within_capacity maxW maxV b"

definition sample_store :: cart_store where
  "sample_store =
     \<lparr>objects = [parcel 1 ''squash'' (Some 3) None 2, parcel 2 ''label'' None None 1],
      itemsRef = [1, 0]\<rparr>"

definition sample_store_after :: cart_store where
  "sample_store_after =
     sample_store\<lparr>objects := objects sample_store
       @ [parcel 2 ''label'' None None 1, parcel 1 ''squash'' (Some 3) None 1,
          parcel 1 ''squash'' (Some 3) None 1]\<rparr>"

definition sample_boxes :: "nat box list" where
  "sample_boxes = [\<lparr>boxId = 1, items = [3, 4, 2], totalWeightKg = 6, totalVolumeCm3 = 0\<rparr>]"

section \<open>Recommendation scorer\<close>

record UserHistory =
  userId :: string
  items' :: "int list"

definition mockPurchaseHistory :: "UserHistory list" where
  "mockPurchaseHistory =
     [\<lparr>userId = ''user1'', items' = [1, 2]\<rparr>,
      \<lparr>userId = ''user2'', items' = [1, 3]\<rparr>,
      \<lparr>userId = ''user3'', items' = [2, 3]\<rparr>,
      \<lparr>userId = ''user4'', items' = [1, 2, 3]\<rparr>,
      \<lparr>userId = ''user5'', items' = [1, 2]\<rparr>,
      \<lparr>userId = ''user6'', items' = [2, 3]\<rparr>]"

record Recommendation =
  product :: Product
  reason :: string
  score :: real

record rec_options =
  browsingHistory :: "int list option"
  minRecommendations :: "int option"
  maxRecommendations :: "int option"
  purchasedIds :: "int list option"

text \<open>\<^verbatim>\<open>options?.minRecommendations ?? 5\<close> and \<^verbatim>\<open>options?.maxRecommendations ?? 10\<close>\<close>

definition MIN_of :: "rec_options option \<Rightarrow> int" where
  "MIN_of options =
     (case options of None \<Rightarrow> 5
      | Some opts \<Rightarrow> (case minRecommendations opts of None \<Rightarrow> 5 | Some n \<Rightarrow> n))"

definition MAX_of :: "rec_options option \<Rightarrow> int" where
  "MAX_of options =
     (case options of None \<Rightarrow> 10
      | Some opts \<Rightarrow> (case maxRecommendations opts of None \<Rightarrow> 10 | Some n \<Rightarrow> n))"

text \<open>\<^verbatim>\<open>options?.browsingHistory ?? []\<close> and \<^verbatim>\<open>options?.purchasedIds || []\<close>\<close>

definition browsing_of :: "rec_options option \<Rightarrow> int list" where
  "browsing_of options =
     (case options of None \<Rightarrow> []
      | Some opts \<Rightarrow> (case browsingHistory opts of None \<Rightarrow> [] | Some b \<Rightarrow> b))"

definition purchased_of :: "rec_options option \<Rightarrow> int list" where
  "purchased_of options =
     (case options of None \<Rightarrow> []
      | Some opts \<Rightarrow> (case purchasedIds opts of None \<Rightarrow> [] | Some b \<Rightarrow> b))"

subsection \<open>Tags\<close>

text \<open>
  Strings are byte strings here, so \<^verbatim>\<open>toLowerCase\<close> and \<^verbatim>\<open>trim\<close> are their ASCII
  parts: the letters A to Z, and the white space characters of code 9 to 13 and 32.
\<close>

definition toLowerCase :: "string \<Rightarrow> string" where
  "toLowerCase s =
     map (\<lambda>c. if 65 \<le> (of_char c :: nat) \<and> (of_char c :: nat) \<le> 90
               then char_of (of_char c + (32 :: nat)) else c) s"

definition isWhiteSpace :: "char \<Rightarrow> bool" where
  "isWhiteSpace c \<longleftrightarrow> (9 \<le> (of_char c :: nat) \<and> (of_char c :: nat) \<le> 13) \<or> (of_char c :: nat) = 32"

definition trim :: "string \<Rightarrow> string" where
  "trim s = rev (dropWhile isWhiteSpace (rev (dropWhile isWhiteSpace s)))"

text \<open>\<^verbatim>\<open>split(/[,|;]/)\<close>\<close>

fun split_tags :: "string \<Rightarrow> string list" where
  "split_tags [] = [[]]"
| "split_tags (c # cs) =
     (if c = CHR '','' \<or> c = CHR ''|'' \<or> c = CHR '';'' then [] # split_tags cs
      else (case split_tags cs of [] \<Rightarrow> [[c]] | t # ts \<Rightarrow> (c # t) # ts))"

definition normalizeTags :: "Product \<Rightarrow> string list" where
  "normalizeTags p =
     (case tags p of
        None \<Rightarrow> []
      | Some (TagsArray ts) \<Rightarrow> map toLowerCase ts
      | Some (TagsString s) \<Rightarrow>
          if s = [] then []
          else filter (\<lambda>t. t \<noteq> []) (map (\<lambda>t. toLowerCase (trim t)) (split_tags s)))"

subsection \<open>Maps and sets of the computation\<close>

text \<open>
  \<^verbatim>\<open>productById\<close>: a later product with the same id replaces an earlier one. A
  \<^verbatim>\<open>Set\<close> or \<^verbatim>\<open>Map\<close> key is compared by SameValueZero, under which \<^verbatim>\<open>NaN\<close> equals
  itself, as \<^term>\<open>None\<close> does here.
\<close>

definition productById :: "Product list \<Rightarrow> int option \<Rightarrow> Product option" where
  "productById allProducts = fold (\<lambda>p m. m(id' p \<mapsto> p)) allProducts Map.empty"

definition cartIds :: "CartItem list \<Rightarrow> int option set" where
  "cartIds cartItems = set (map id' cartItems)"

definition purchasedIdSet :: "rec_options option \<Rightarrow> int option set" where
  "purchasedIdSet options = set (map Some (purchased_of options))"

text \<open>
  A \<^verbatim>\<open>Map\<close> from keys to counts that is iterated later keeps its insertion order: an
  association list. \<^verbatim>\<open>m.set(k, (m.get(k) || 0) + 1)\<close>:
\<close>

fun count_up :: "'k \<Rightarrow> ('k \<times> real) list \<Rightarrow> ('k \<times> real) list" where
  "count_up k [] = [(k, 1)]"
| "count_up k ((k', c) # rest) =
     (if k = k' then (k', c + 1) # rest else (k', c) # count_up k rest)"

text \<open>A \<^verbatim>\<open>Set\<close> that is iterated later: a list without repetition, in insertion order.\<close>

definition set_add :: "'a \<Rightarrow> 'a list \<Rightarrow> 'a list" where
  "set_add x xs = (if x \<in> set xs then xs else xs @ [x])"

subsection \<open>The accumulator and \<^verbatim>\<open>push\<close>\<close>

record rec_state =
  recs :: "Recommendation list"
  seen :: "int option set"

definition push ::
  "CartItem list \<Rightarrow> Product list \<Rightarrow> rec_options option \<Rightarrow>
     int option \<Rightarrow> string \<Rightarrow> real \<Rightarrow> rec_state \<Rightarrow> rec_state" where
  "push cartItems allProducts options pid why sc st =
     (if pid \<in> cartIds cartItems \<or> pid \<in> seen st \<or> pid \<in> purchasedIdSet options then st
      else (case productById allProducts pid of
              None \<Rightarrow> st
            | Some found \<Rightarrow>
                st\<lparr>seen := insert pid (seen st),
                   recs := recs st @ [\<lparr>product = found, reason = why, score = sc\<rparr>]\<rparr>))"

subsection \<open>Non-empty cart\<close>

definition coPurchaseFreq :: "CartItem list \<Rightarrow> (int \<times> real) list" where
  "coPurchaseFreq cartItems =
     fold (\<lambda>h freq.
             if list_ex (\<lambda>i. Some i \<in> cartIds cartItems) (items' h)
             then fold (\<lambda>i fr. if Some i \<notin> cartIds cartItems then count_up i fr else fr)
                    (items' h) freq
             else freq)
       mockPurchaseHistory []"

definition boughtTogether ::
  "CartItem list \<Rightarrow> Product list \<Rightarrow> rec_options option \<Rightarrow> rec_state \<Rightarrow> rec_state" where
  "boughtTogether cartItems allProducts options st =
     fold (\<lambda>(i, count). push cartItems allProducts options (Some i) ''bought together'' count)
       (js_sort (\<lambda>(i, a) (j, b). b - a) (coPurchaseFreq cartItems)) st"

definition browsingTags :: "Product list \<Rightarrow> int list \<Rightarrow> string set" where
  "browsingTags allProducts browsing =
     fold (\<lambda>bid btags.
             case productById allProducts (Some bid) of
               None \<Rightarrow> btags
             | Some bp \<Rightarrow> fold insert (normalizeTags bp) btags)
       browsing {}"

definition browsingStep ::
  "CartItem list \<Rightarrow> Product list \<Rightarrow> rec_options option \<Rightarrow> string set \<Rightarrow>
     Product \<Rightarrow> rec_state \<Rightarrow> rec_state" where
  "browsingStep cartItems allProducts options btags p st =
     (if id' p \<in> cartIds cartItems \<or> id' p \<in> seen st then st
      else if length (filter (\<lambda>t. t \<in> btags) (normalizeTags p)) > 0
      then push cartItems allProducts options (id' p) ''browsing history''
             (real (length (filter (\<lambda>t. t \<in> btags) (normalizeTags p)))) st
      else st)"

definition browsingHistoryRecs ::
  "CartItem list \<Rightarrow> Product list \<Rightarrow> rec_options option \<Rightarrow> rec_state \<Rightarrow> rec_state" where
  "browsingHistoryRecs cartItems allProducts options st =
     (if length (browsing_of options) > 0
      then (if browsingTags allProducts (browsing_of options) \<noteq> {}
            then fold (browsingStep cartItems allProducts options
                         (browsingTags allProducts (browsing_of options)))
                   allProducts st
            else st)
      else st)"

text \<open>The same-category loop, which stops once \<^verbatim>\<open>recs.length >= MAX\<close>.\<close>

fun sameCategoryLoop ::
  "CartItem list \<Rightarrow> Product list \<Rightarrow> rec_options option \<Rightarrow>
     Product list \<Rightarrow> rec_state \<Rightarrow> rec_state" where
  "sameCategoryLoop cartItems allProducts options [] st = st"
| "sameCategoryLoop cartItems allProducts options (p # ps) st =
     (if id' p \<in> cartIds cartItems \<or> id' p \<in> seen st
      then sameCategoryLoop cartItems allProducts options ps st
      else (let st' = (if category p \<in> set (map category cartItems)
                       then push cartItems allProducts options (id' p) ''same category'' 1 st
                       else st)
            in if int (length (recs st')) \<ge> MAX_of options then st'
               else sameCategoryLoop cartItems allProducts options ps st'))"

definition nonEmptyCartRecs ::
  "CartItem list \<Rightarrow> Product list \<Rightarrow> rec_options option \<Rightarrow> rec_state" where
  "nonEmptyCartRecs cartItems allProducts options =
     (let st = browsingHistoryRecs cartItems allProducts options
                 (boughtTogether cartItems allProducts options \<lparr>recs = [], seen = {}\<rparr>)
      in if int (length (recs st)) < MIN_of options
         then sameCategoryLoop cartItems allProducts options allProducts st
         else st)"

subsection \<open>Empty cart\<close>

definition seedTagsOfHistory :: "Product list \<Rightarrow> int list \<Rightarrow> string list" where
  "seedTagsOfHistory allProducts seed =
     (if length seed > 0
      then fold (\<lambda>sid seedTags.
                   case productById allProducts (Some sid) of
                     None \<Rightarrow> seedTags
                   | Some sp \<Rightarrow> fold set_add (normalizeTags sp) seedTags)
             seed []
      else [])"

definition tagFreq :: "Product list \<Rightarrow> (string \<times> real) list" where
  "tagFreq allProducts = fold (\<lambda>p tf. fold count_up (normalizeTags p) tf) allProducts []"

definition seedTags :: "Product list \<Rightarrow> rec_options option \<Rightarrow> string list" where
  "seedTags allProducts options =
     (if length (seedTagsOfHistory allProducts (browsing_of options)) = 0
      then fold (\<lambda>(t, count). set_add t)
             (take 3 (js_sort (\<lambda>(s, a) (t, b). b - a) (tagFreq allProducts)))
             (seedTagsOfHistory allProducts (browsing_of options))
      else seedTagsOfHistory allProducts (browsing_of options))"

text \<open>
  The shuffle. The \<open>k\<close>-th value of \<^verbatim>\<open>Math.floor(Math.random() * (i + 1))\<close> in a run is
  some index from 0 to \<open>i\<close>: \<open>draw k mod (i + 1)\<close> for an arbitrary source
  \<open>draw\<close>. The loop runs \<open>i\<close> from the last index down to 1 and swaps the
  entries at \<open>i\<close> and \<open>j\<close>.
\<close>

fun fisher_yates :: "(nat \<Rightarrow> nat) \<Rightarrow> nat \<Rightarrow> nat \<Rightarrow> 'a list \<Rightarrow> 'a list" where
  "fisher_yates draw k 0 xs = xs"
| "fisher_yates draw k (Suc i) xs =
     fisher_yates draw (Suc k) i
       (xs[Suc i := xs ! (draw k mod (Suc i + 1)), draw k mod (Suc i + 1) := xs ! Suc i])"

definition shuffle :: "(nat \<Rightarrow> nat) \<Rightarrow> nat \<Rightarrow> 'a list \<Rightarrow> 'a list" where
  "shuffle draw k xs = fisher_yates draw k (length xs - 1) xs"

text \<open>The loop over the seed tags; the state carries the number of draws made so far.\<close>

fun sameTagLoop ::
  "(nat \<Rightarrow> nat) \<Rightarrow> CartItem list \<Rightarrow> Product list \<Rightarrow> rec_options option \<Rightarrow>
     string list \<Rightarrow> rec_state \<times> nat \<Rightarrow> rec_state \<times> nat" where
  "sameTagLoop draw cartItems allProducts options [] (st, k) = (st, k)"
| "sameTagLoop draw cartItems allProducts options (tag # rest) (st, k) =
     (let candidates =
            filter (\<lambda>p. tag \<in> set (normalizeTags p) \<and> id' p \<notin> cartIds cartItems
                        \<and> id' p \<notin> seen st) allProducts;
          st' = fold (\<lambda>p. push cartItems allProducts options (id' p) ''same tag'' 1)
                  (take 2 (shuffle draw k candidates)) st;
          k' = k + (length candidates - 1)
      in if int (length (recs st')) \<ge> MAX_of options then (st', k')
         else sameTagLoop draw cartItems allProducts options rest (st', k'))"

definition emptyCartRecs ::
  "(nat \<Rightarrow> nat) \<Rightarrow> CartItem list \<Rightarrow> Product list \<Rightarrow> rec_options option \<Rightarrow> rec_state" where
  "emptyCartRecs draw cartItems allProducts options =
     fst (sameTagLoop draw cartItems allProducts options (seedTags allProducts options)
            (\<lparr>recs = [], seen = {}\<rparr>, 0))"

subsection \<open>Ordering and truncation\<close>

definition reasonPriority :: "string \<Rightarrow> real" where
  "reasonPriority r =
     (if r = ''bought together'' then 4
      else if r = ''browsing history'' then 3
      else if r = ''same tag'' then 2
      else if r = ''same category'' then 1
      else 0)"

text \<open>
  The comparator of the final sort. \<^verbatim>\<open>String.prototype.localeCompare\<close> depends on the
  locale of the platform and is the argument \<open>localeCompare\<close>.
\<close>

definition compareRecs ::
  "(string \<Rightarrow> string \<Rightarrow> real) \<Rightarrow> Recommendation \<Rightarrow> Recommendation \<Rightarrow> real" where
  "compareRecs localeCompare a b =
     (if score b \<noteq> score a then score b - score a
      else if reasonPriority (reason b) \<noteq> reasonPriority (reason a)
      then reasonPriority (reason b) - reasonPriority (reason a)
      else localeCompare (name (product a)) (name (product b)))"

text \<open>
  \<^verbatim>\<open>xs.slice(0, e)\<close> for an integer \<open>e\<close>: a negative \<open>e\<close> counts from the end.
\<close>

definition slice0 :: "int \<Rightarrow> 'a list \<Rightarrow> 'a list" where
  "slice0 e xs =
     take (nat (if e < 0 then max (int (length xs) + e) 0 else min e (int (length xs)))) xs"

definition localRecs ::
  "(string \<Rightarrow> string \<Rightarrow> real) \<Rightarrow> (nat \<Rightarrow> nat) \<Rightarrow> CartItem list \<Rightarrow> Product list \<Rightarrow>
     rec_options option \<Rightarrow> Recommendation list" where
  "localRecs localeCompare draw cartItems allProducts options =
     js_sort (compareRecs localeCompare)
       (recs (if length cartItems > 0 then nonEmptyCartRecs cartItems allProducts options
              else emptyCartRecs draw cartItems allProducts options))"

definition localCompute ::
  "(string \<Rightarrow> string \<Rightarrow> real) \<Rightarrow> (nat \<Rightarrow> nat) \<Rightarrow> CartItem list \<Rightarrow> Product list \<Rightarrow>
     rec_options option \<Rightarrow> Recommendation list" where
  "localCompute localeCompare draw cartItems allProducts options =
     slice0
       (max (MIN_of options)
          (min (MAX_of options)
             (int (length (localRecs localeCompare draw cartItems allProducts options)))))
       (localRecs localeCompare draw cartItems allProducts options)"

subsection \<open>Delegation to the recommendation service\<close>

text \<open>
  What the service returned is the argument \<open>remote\<close>: \<^term>\<open>None\<close> when the client
  has no \<^verbatim>\<open>getRecommendations\<close>, the call failed or the answer is not an array. An entry
  carries \<^verbatim>\<open>Number(r.id)\<close> and the optional \<^verbatim>\<open>reason\<close> and \<^verbatim>\<open>score\<close>.
\<close>

record server_rec =
  id_r :: "int option"
  reason_r :: "string option"
  score_r :: "real option"

definition mapped :: "Product list \<Rightarrow> server_rec list \<Rightarrow> Recommendation list" where
  "mapped allProducts res =
     List.map_filter
       (\<lambda>r. case List.find (\<lambda>p. id' p \<noteq> None \<and> id' p = id_r r) allProducts of
               None \<Rightarrow> None
             | Some found \<Rightarrow>
                 Some \<lparr>product = found,
                       reason = (case reason_r r of
                                   None \<Rightarrow> ''server''
                                 | Some s \<Rightarrow> if s = [] then ''server'' else s),
                       score = (case score_r r of None \<Rightarrow> 0 | Some x \<Rightarrow> x)\<rparr>)
       res"

definition useRecommendations ::
  "(string \<Rightarrow> string \<Rightarrow> real) \<Rightarrow> (nat \<Rightarrow> nat) \<Rightarrow> server_rec list option \<Rightarrow>
     CartItem list \<Rightarrow> Product list \<Rightarrow> rec_options option \<Rightarrow> Recommendation list" where
  "useRecommendations localeCompare draw remote cartItems allProducts options =
     (case remote of
        None \<Rightarrow> localCompute localeCompare draw cartItems allProducts options
      | Some res \<Rightarrow>
          if length (mapped allProducts res) > 0
          then slice0 (MAX_of options) (mapped allProducts res)
          else localCompute localeCompare draw cartItems allProducts options)"

subsection \<open>Predicates of the statements and sample data\<close>

definition catalog_product :: "int \<Rightarrow> string \<Rightarrow> string \<Rightarrow> tags_field option \<Rightarrow> Product" where
  "catalog_product i n c t =
     \<lparr>id' = Some i, name = n, image = [], category = c, description = [],
      price = 20, weightKg = None, volumeCm3 = None, tags = t, onSale = None,
      salePrice = None\<rparr>"


definition only_one :: "rec_options option" where
  "only_one = Some \<lparr>browsingHistory = None, minRecommendations = None,
     maxRecommendations = Some 1, purchasedIds = None\<rparr>"



section \<open>Sorting lemmas\<close>

lemma insort_cmp_key:
  "insort_cmp (\<lambda>a b. f a - f b) x ys = insort_key f x ys"
  by (induction ys) auto

lemma js_sort_key: "js_sort (\<lambda>a b. f a - f b) xs = sort_key f xs"
  by (induction xs) (auto simp: js_sort_def insort_cmp_key)



lemma length_insort_cmp: "length (insort_cmp cmp x ys) = Suc (length ys)"
  by (induction ys) auto

lemma length_js_sort: "length (js_sort cmp xs) = length xs"
  by (induction xs) (auto simp: js_sort_def length_insort_cmp)

lemma mset_insort_cmp: "mset (insort_cmp cmp x ys) = add_mset x (mset ys)"
  by (induction ys) auto

lemma mset_js_sort: "mset (js_sort cmp xs) = mset xs"
  by (induction xs) (auto simp: js_sort_def mset_insort_cmp)

lemma optimizeCartItems_sort_key:
  "optimizeCartItems xs = sort_key efficiency (filter (\<lambda>item. quantity item > 0) xs)"
  by (simp add: optimizeCartItems_def js_sort_key)

lemma set_optimizeCartItems:
  "set (optimizeCartItems xs) = {item \<in> set xs. quantity item > 0}"
  by (simp add: optimizeCartItems_sort_key)

lemma sorted_optimizeCartItems: "sorted (map efficiency (optimizeCartItems xs))"
  by (simp add: optimizeCartItems_sort_key)

lemma optimizeCartItems_fixed:
  assumes "\<forall>item \<in> set xs. quantity item > 0" and "sorted (map efficiency xs)"
  shows "optimizeCartItems xs = xs"
proof -
  have "filter (\<lambda>item. quantity item > 0) xs = xs"
    using assms(1) by (simp add: filter_id_conv)
  then show ?thesis
    using assms(2) by (simp add: optimizeCartItems_sort_key sort_key_id_if_sorted)
qed

section \<open>Properties of the normalizer\<close>

text \<open>
  C6. In the output of the normalizer every adjacent pair \<open>(a, b)\<close> satisfies
  \<open>a.price / a.quantity \<le> b.price / b.quantity\<close>. This holds for every input
  list, so in particular for the lists with positive quantities and non-negative prices.
\<close>

theorem optimizeCartItems_adjacent_ascending:
  "Suc i < length (optimizeCartItems L) \<Longrightarrow>
     price (optimizeCartItems L ! i) / real_of_int (quantity (optimizeCartItems L ! i))
       \<le> price (optimizeCartItems L ! Suc i)
           / real_of_int (quantity (optimizeCartItems L ! Suc i))"
proof -
  assume len: "Suc i < length (optimizeCartItems L)"
  have "sorted (map efficiency (optimizeCartItems L))"
    by (rule sorted_optimizeCartItems)
  then have "map efficiency (optimizeCartItems L) ! i
      \<le> map efficiency (optimizeCartItems L) ! Suc i"
    using len by (simp add: sorted_iff_nth_Suc del: nth_map)
  then show ?thesis
    using len by (simp add: efficiency_def)
qed

theorem optimizeCartItems_adjacent_ascending_witness:
  "optimizeCartItems [sample_line 1 ''kale'' 90 2, sample_line 2 ''yam'' 40 4]
     = [sample_line 2 ''yam'' 40 4, sample_line 1 ''kale'' 90 2]
   \<and> price (sample_line 2 ''yam'' 40 4) / real_of_int (quantity (sample_line 2 ''yam'' 40 4))
       \<le> price (sample_line 1 ''kale'' 90 2)
           / real_of_int (quantity (sample_line 1 ''kale'' 90 2))"
proof -
  have eq: "optimizeCartItems [sample_line 1 ''kale'' 90 2, sample_line 2 ''yam'' 40 4]
     = [sample_line 2 ''yam'' 40 4, sample_line 1 ''kale'' 90 2]"
    by (simp add: optimizeCartItems_def js_sort_def efficiency_def sample_line_def)
  have "Suc 0 < length (optimizeCartItems
      [sample_line 1 ''kale'' 90 2, sample_line 2 ''yam'' 40 4])"
    by (simp add: eq)
  from optimizeCartItems_adjacent_ascending [OF this] show ?thesis
    by (simp add: eq)
qed

text \<open>
  C7. The normalizer is idempotent: \<open>normalize (normalize L) = normalize L\<close> for
  every list \<open>L\<close> of cart lines.
\<close>

theorem optimizeCartItems_idempotent:
  "optimizeCartItems (optimizeCartItems L) = optimizeCartItems L"
  by (rule optimizeCartItems_fixed)
     (simp_all add: set_optimizeCartItems sorted_optimizeCartItems)

section \<open>Properties of the cart mutations\<close>

lemma ascending_efficiency_sorted:
  "ascending_efficiency xs = sorted (map efficiency xs)"
  by (induction xs rule: ascending_efficiency.induct)
     (simp_all only: ascending_efficiency.simps list.map sorted0 sorted1 sorted2 efficiency_def)

lemma positive_optimizeCartItems:
  "\<forall>it \<in> set (optimizeCartItems xs). quantity it > 0"
  by (simp add: set_optimizeCartItems)

lemma ascending_optimizeCartItems: "ascending_efficiency (optimizeCartItems xs)"
  by (simp add: ascending_efficiency_sorted sorted_optimizeCartItems)

lemma normalized_optimizeCartItems:
  "(\<forall>it \<in> set (optimizeCartItems xs). quantity it > 0)
     \<and> ascending_efficiency (optimizeCartItems xs)"
  using positive_optimizeCartItems ascending_optimizeCartItems by blast

lemma normalized_addToCart:
  "(\<forall>it \<in> set (addToCart p q now currentItems). quantity it > 0)
     \<and> ascending_efficiency (addToCart p q now currentItems)"
proof (cases "findIndex (\<lambda>it. id' it = Some (normalizedId p now)) currentItems")
  case None
  then have "addToCart p q now currentItems = optimizeCartItems
      (currentItems @ [newItem p (normalizedId p now) (defaultQuantity q)])"
    by (simp add: addToCart_def)
  then show ?thesis
    by (simp only:) (rule normalized_optimizeCartItems)
next
  case (Some existingIndex)
  then have "addToCart p q now currentItems = optimizeCartItems
      (map (\<lambda>(i, it). if i = existingIndex
                        then it\<lparr>quantity := quantity it + defaultQuantity q\<rparr> else it)
         (enumerate 0 currentItems))"
    by (simp add: addToCart_def)
  then show ?thesis
    by (simp only:) (rule normalized_optimizeCartItems)
qed

lemma normalized_removeFromCart:
  "(\<forall>it \<in> set (removeFromCart productId currentItems). quantity it > 0)
     \<and> ascending_efficiency (removeFromCart productId currentItems)"
  unfolding removeFromCart_def by (rule normalized_optimizeCartItems)

lemma normalized_updateQuantity:
  "(\<forall>it \<in> set (updateQuantity productId qty currentItems). quantity it > 0)
     \<and> ascending_efficiency (updateQuantity productId qty currentItems)"
proof (cases "qty \<le> 0")
  case True
  then have "updateQuantity productId qty currentItems = removeFromCart productId currentItems"
    by (simp add: updateQuantity_def)
  then show ?thesis
    by (simp only:) (rule normalized_removeFromCart)
next
  case False
  then have "updateQuantity productId qty currentItems = optimizeCartItems
      (map (\<lambda>it. if id' it = Some productId then it\<lparr>quantity := qty\<rparr> else it) currentItems)"
    by (simp add: updateQuantity_def)
  then show ?thesis
    by (simp only:) (rule normalized_optimizeCartItems)
qed

text \<open>
  C9. Every cart mutation (\<^verbatim>\<open>addToCart\<close>, \<^verbatim>\<open>removeFromCart\<close>, \<^verbatim>\<open>updateQuantity\<close>)
  produces a list in which every line has a positive quantity and adjacent lines are in
  non-decreasing order of price / quantity, whatever the list before the mutation was.
\<close>

theorem cart_mutations_normalized:
  "((\<forall>it \<in> set (addToCart p q now currentItems). quantity it > 0)
      \<and> ascending_efficiency (addToCart p q now currentItems))
   \<and> ((\<forall>it \<in> set (removeFromCart productId currentItems). quantity it > 0)
      \<and> ascending_efficiency (removeFromCart productId currentItems))
   \<and> ((\<forall>it \<in> set (updateQuantity productId qty currentItems). quantity it > 0)
      \<and> ascending_efficiency (updateQuantity productId qty currentItems))"
  using normalized_addToCart [of p q now currentItems]
    normalized_removeFromCart [of productId currentItems]
    normalized_updateQuantity [of productId qty currentItems]
  by blast

lemma findIndex_None: "findIndex P xs = None \<longleftrightarrow> (\<forall>x \<in> set xs. \<not> P x)"
  by (induction xs) auto

lemma mset_optimizeCartItems:
  "mset (optimizeCartItems xs) = mset (filter (\<lambda>item. quantity item > 0) xs)"
  by (simp add: optimizeCartItems_def mset_js_sort)

lemma addToCart_fresh:
  assumes "\<forall>it \<in> set cart. id' it \<noteq> Some (normalizedId p now)"
  shows "addToCart p q now cart
           = optimizeCartItems (cart @ [newItem p (normalizedId p now) (defaultQuantity q)])"
  using assms by (simp add: addToCart_def findIndex_None[THEN iffD2])

theorem cart_mutations_normalized_witness:
  "\<not> ascending_efficiency unsorted_cart
   \<and> addToCart (sample_product ''leek'') None 1000 unsorted_cart
       = [sample_line 2 ''yam'' 40 4, sample_line 1 ''kale'' 90 2,
          newItem (sample_product ''leek'') (- 1000) 1]
   \<and> removeFromCart 1 unsorted_cart = [sample_line 2 ''yam'' 40 4]
   \<and> updateQuantity 1 5 unsorted_cart = [sample_line 2 ''yam'' 40 4, sample_line 1 ''kale'' 90 5]
   \<and> quantity (addToCart (sample_product ''leek'') None 1000 unsorted_cart ! 0) > 0
   \<and> ascending_efficiency (addToCart (sample_product ''leek'') None 1000 unsorted_cart)
   \<and> quantity (removeFromCart 1 unsorted_cart ! 0) > 0
   \<and> ascending_efficiency (removeFromCart 1 unsorted_cart)
   \<and> quantity (updateQuantity 1 5 unsorted_cart ! 0) > 0
   \<and> ascending_efficiency (updateQuantity 1 5 unsorted_cart)"
proof -
  have a: "\<not> ascending_efficiency unsorted_cart"
    by (simp add: unsorted_cart_def sample_line_def)
  have b: "addToCart (sample_product ''leek'') None 1000 unsorted_cart
       = [sample_line 2 ''yam'' 40 4, sample_line 1 ''kale'' 90 2,
          newItem (sample_product ''leek'') (- 1000) 1]"
    by (simp add: unsorted_cart_def addToCart_def normalizedId_def sample_product_def
        newItem_def defaultQuantity_def optimizeCartItems_def js_sort_def sample_line_def
        efficiency_def)
  have c: "removeFromCart 1 unsorted_cart = [sample_line 2 ''yam'' 40 4]"
    by (simp add: unsorted_cart_def removeFromCart_def optimizeCartItems_def js_sort_def
        sample_line_def efficiency_def)
  have d: "updateQuantity 1 5 unsorted_cart
       = [sample_line 2 ''yam'' 40 4, sample_line 1 ''kale'' 90 5]"
    by (simp add: unsorted_cart_def updateQuantity_def optimizeCartItems_def js_sort_def
        sample_line_def efficiency_def)
  have mem: "addToCart (sample_product ''leek'') None 1000 unsorted_cart ! 0
        \<in> set (addToCart (sample_product ''leek'') None 1000 unsorted_cart)"
    "removeFromCart 1 unsorted_cart ! 0 \<in> set (removeFromCart 1 unsorted_cart)"
    "updateQuantity 1 5 unsorted_cart ! 0 \<in> set (updateQuantity 1 5 unsorted_cart)"
    by (simp_all add: b c d)
  show ?thesis
    using cart_mutations_normalized
      [of "sample_product ''leek''" None 1000 unsorted_cart 1 5] a b c d mem
    by blast
qed

text \<open>
  C8, as amended. Adding a p whose id is not numeric never rejects: the line gets
  the identity \<open>- now\<close>. Two such products added at different clock readings, with
  positive quantities, to a cart that holds neither identity, end up on two separate
  lines, each with its own quantity. At the same clock reading they share the
  identity and merge.
\<close>

theorem addToCart_malformed_distinct:
  assumes "id' p1 = None" and "id' p2 = None" and "now1 \<noteq> now2"
    and "\<forall>it \<in> set cart. id' it \<noteq> Some (- now1) \<and> id' it \<noteq> Some (- now2)"
    and "0 < defaultQuantity q1" and "0 < defaultQuantity q2"
  shows "mset (addToCart p2 q2 now2 (addToCart p1 q1 now1 cart))
           = mset (optimizeCartItems cart)
             + {#newItem p1 (- now1) (defaultQuantity q1), newItem p2 (- now2) (defaultQuantity q2)#}"
proof -
  have n1: "normalizedId p1 now1 = - now1" and n2: "normalizedId p2 now2 = - now2"
    using assms(1,2) by (simp_all add: normalizedId_def)
  have first: "addToCart p1 q1 now1 cart
      = optimizeCartItems (cart @ [newItem p1 (- now1) (defaultQuantity q1)])"
    using assms(4) addToCart_fresh [of cart p1 now1 q1] by (simp add: n1)
  have "\<forall>it \<in> set (addToCart p1 q1 now1 cart). id' it \<noteq> Some (normalizedId p2 now2)"
    using assms(3,4) by (auto simp: first n2 set_optimizeCartItems newItem_def)
  then have second: "addToCart p2 q2 now2 (addToCart p1 q1 now1 cart)
      = optimizeCartItems (addToCart p1 q1 now1 cart @ [newItem p2 (- now2) (defaultQuantity q2)])"
    using addToCart_fresh [of "addToCart p1 q1 now1 cart" p2 now2 q2] by (simp add: n2)
  have pos: "filter (\<lambda>item. quantity item > 0) (addToCart p1 q1 now1 cart) = addToCart p1 q1 now1 cart"
    by (simp add: filter_id_conv first set_optimizeCartItems)
  show ?thesis
    using assms(5,6)
    by (simp add: second mset_optimizeCartItems pos)
       (simp add: first mset_optimizeCartItems newItem_def)
qed


theorem addToCart_malformed_distinct_witness:
  "id' (sample_product ''leek'') = None \<and> id' (sample_product ''okra'') = None
   \<and> (1000::int) \<noteq> 1001
   \<and> id' (sample_line 2 ''yam'' 40 4) \<noteq> Some (- 1000)
   \<and> id' (sample_line 2 ''yam'' 40 4) \<noteq> Some (- 1001)
   \<and> 0 < defaultQuantity None \<and> 0 < defaultQuantity (Some 3)
   \<and> mset (addToCart (sample_product ''okra'') (Some 3) 1001
             (addToCart (sample_product ''leek'') None 1000 [sample_line 2 ''yam'' 40 4]))
       = mset (optimizeCartItems [sample_line 2 ''yam'' 40 4])
         + {#newItem (sample_product ''leek'') (- 1000) (defaultQuantity None),
             newItem (sample_product ''okra'') (- 1001) (defaultQuantity (Some 3))#}"
proof -
  have h1: "id' (sample_product ''leek'') = None" and h2: "id' (sample_product ''okra'') = None"
    by (simp_all add: sample_product_def)
  have h3: "(1000::int) \<noteq> 1001" by simp
  have e: "id' (sample_line 2 ''yam'' 40 4) \<noteq> Some (- 1000)"
    "id' (sample_line 2 ''yam'' 40 4) \<noteq> Some (- 1001)"
    by (simp_all add: sample_line_def)
  then have h4: "\<forall>it \<in> set [sample_line 2 ''yam'' 40 4].
         id' it \<noteq> Some (- 1000) \<and> id' it \<noteq> Some (- 1001)"
    by simp
  have h5: "0 < defaultQuantity None" and h6: "0 < defaultQuantity (Some 3)"
    by (simp_all add: defaultQuantity_def)
  show ?thesis
    using addToCart_malformed_distinct [OF h1 h2 h3 h4 h5 h6] h1 h2 h3 e h5 h6
    by blast
qed

text \<open>
  C8 as stated fails: two distinct products with non-numeric ids, added at the same
  clock reading, receive the same identity and merge into one line of quantity 2.
\<close>

theorem addToCart_same_clock_merges:
  "id' (sample_product ''leek'') = None \<and> id' (sample_product ''okra'') = None
   \<and> sample_product ''leek'' \<noteq> sample_product ''okra''
   \<and> addToCart (sample_product ''okra'') None 1000
        (addToCart (sample_product ''leek'') None 1000 [])
      = [newItem (sample_product ''leek'') (- 1000) 2]"
  by (simp add: addToCart_def normalizedId_def sample_product_def newItem_def
      defaultQuantity_def optimizeCartItems_def js_sort_def)

section \<open>Properties of the delivery packer\<close>

lemma expand_line_replicate:
  "expand_line i it expanded
     = expanded @ replicate (nat (quantity it - i)) (it\<lparr>quantity := 1\<rparr>)"
proof (induction i it expanded rule: expand_line.induct)
  case (1 i it expanded)
  show ?case
  proof (cases "i < quantity it")
    case True
    then have "nat (quantity it - i) = Suc (nat (quantity it - (i + 1)))" by simp
    with True 1 show ?thesis
      by (subst expand_line.simps) (simp add: replicate_app_Cons_same del: expand_line.simps)
  next
    case False
    then show ?thesis by simp
  qed
qed


lemma fold_expand_line:
  "fold (\<lambda>it expanded. expand_line 0 it expanded) cart acc
     = acc @ concat (map unit_copies cart)"
  by (induction cart arbitrary: acc)
     (simp_all add: expand_line_replicate unit_copies_def del: expand_line.simps)

lemma expand_unit_copies: "expand cart = concat (map unit_copies cart)"
  by (simp add: expand_def fold_expand_line del: expand_line.simps)



lemma try_place_ok:
  "try_place look maxW maxV unit boxes = Some boxes' \<Longrightarrow>
   \<forall>b \<in> set boxes. box_ok maxW maxV b \<Longrightarrow> \<forall>b \<in> set boxes'. box_ok maxW maxV b"
proof (induction boxes arbitrary: boxes')
  case Nil
  then show ?case by simp
next
  case (Cons b bs)
  show ?case
  proof (cases "totalWeightKg b + unitWeight (look unit) \<le> maxW
         \<and> totalVolumeCm3 b + unitVolume (look unit) \<le> maxV")
    case True
    with Cons.prems show ?thesis
      by (auto simp: box_ok_def within_capacity_def)
  next
    case False
    with Cons.prems(1) obtain rest where
      r: "try_place look maxW maxV unit bs = Some rest" and b': "boxes' = b # rest"
      by auto
    from Cons.IH [OF r] Cons.prems(2) have "\<forall>b \<in> set rest. box_ok maxW maxV b" by simp
    with Cons.prems(2) b' show ?thesis by simp
  qed
qed

lemma place_unit_ok:
  assumes "\<forall>b \<in> set boxes. box_ok maxW maxV b"
  shows "\<forall>b \<in> set (place_unit look maxW maxV unit boxes). box_ok maxW maxV b"
proof (cases "try_place look maxW maxV unit boxes")
  case None
  with assms show ?thesis by (auto simp: place_unit_def box_ok_def)
next
  case (Some boxes')
  with try_place_ok [OF Some assms] show ?thesis by (simp add: place_unit_def)
qed

lemma fold_place_unit_ok:
  "\<forall>b \<in> set boxes. box_ok maxW maxV b \<Longrightarrow>
   \<forall>b \<in> set (fold (place_unit look maxW maxV) units boxes). box_ok maxW maxV b"
proof (induction units arbitrary: boxes)
  case Nil
  then show ?case by simp
next
  case (Cons unit units)
  from place_unit_ok [OF Cons.prems]
  have "\<forall>b \<in> set (place_unit look maxW maxV unit boxes). box_ok maxW maxV b" .
  from Cons.IH [OF this] show ?case by simp
qed

lemma pack_units_ok: "\<forall>b \<in> set (pack_units look maxW maxV expanded). box_ok maxW maxV b"
  unfolding pack_units_def by (rule fold_place_unit_ok) simp

lemmas pack_eval = packForDelivery_def pack_units_def place_unit_def expand_unit_copies
  unit_copies_def js_sort_def metric_def unitWeight_def unitVolume_def parcel_def
  maxWeightKg_of_def maxVolumeCm3_of_def



text \<open>
  C1. For every cart and every options value, each box returned by
  \<^verbatim>\<open>packForDelivery\<close> either holds exactly one unit or has
  \<open>totalWeightKg \<le> maxWeightKg\<close> (default 10) and
  \<open>totalVolumeCm3 \<le> maxVolumeCm3\<close> (default 40000).
\<close>

theorem packForDelivery_within_capacity:
  "\<forall>b \<in> set (packForDelivery cart options).
     length (items b) = 1
     \<or> (totalWeightKg b \<le> maxWeightKg_of options \<and> totalVolumeCm3 b \<le> maxVolumeCm3_of options)"
  using pack_units_ok [of "\<lambda>unit. unit" "maxWeightKg_of options" "maxVolumeCm3_of options" "expand cart"]
  by (simp add: packForDelivery_def box_ok_def within_capacity_def)

theorem packForDelivery_within_capacity_witness:
  "maxWeightKg_of None = 10 \<and> maxVolumeCm3_of None = 40000
   \<and> packForDelivery [parcel 1 ''squash'' (Some 3) None 4] None
     = [\<lparr>boxId = 1, items = replicate 3 (parcel 1 ''squash'' (Some 3) None 1),
          totalWeightKg = 9, totalVolumeCm3 = 0\<rparr>,
        \<lparr>boxId = 2, items = [parcel 1 ''squash'' (Some 3) None 1],
          totalWeightKg = 3, totalVolumeCm3 = 0\<rparr>]
   \<and> (length (items (packForDelivery [parcel 1 ''squash'' (Some 3) None 4] None ! 0)) = 1
        \<or> (totalWeightKg (packForDelivery [parcel 1 ''squash'' (Some 3) None 4] None ! 0)
              \<le> maxWeightKg_of None
           \<and> totalVolumeCm3 (packForDelivery [parcel 1 ''squash'' (Some 3) None 4] None ! 0)
              \<le> maxVolumeCm3_of None))
   \<and> length (items (packForDelivery [parcel 1 ''squash'' (Some 3) None 4] None ! 0)) = 3"
proof -
  have run: "packForDelivery [parcel 1 ''squash'' (Some 3) None 4] None
     = [\<lparr>boxId = 1, items = replicate 3 (parcel 1 ''squash'' (Some 3) None 1),
          totalWeightKg = 9, totalVolumeCm3 = 0\<rparr>,
        \<lparr>boxId = 2, items = [parcel 1 ''squash'' (Some 3) None 1],
          totalWeightKg = 3, totalVolumeCm3 = 0\<rparr>]"
    by (simp add: pack_eval eval_nat_numeral)
  have caps: "maxWeightKg_of None = 10 \<and> maxVolumeCm3_of None = 40000"
    by (simp add: maxWeightKg_of_def maxVolumeCm3_of_def)
  have first: "packForDelivery [parcel 1 ''squash'' (Some 3) None 4] None ! 0
      \<in> set (packForDelivery [parcel 1 ''squash'' (Some 3) None 4] None)"
    by (simp add: run)
  have len: "length (items (packForDelivery [parcel 1 ''squash'' (Some 3) None 4] None ! 0)) = 3"
    by (simp add: run)
  show ?thesis
    using packForDelivery_within_capacity [of "[parcel 1 ''squash'' (Some 3) None 4]" None]
      run caps first len
    by blast
qed

lemma try_place_mset:
  "try_place look maxW maxV unit boxes = Some boxes' \<Longrightarrow>
   mset (concat (map items boxes')) = add_mset unit (mset (concat (map items boxes)))"
proof (induction boxes arbitrary: boxes')
  case Nil
  then show ?case by simp
next
  case (Cons b bs)
  show ?case
  proof (cases "totalWeightKg b + unitWeight (look unit) \<le> maxW
         \<and> totalVolumeCm3 b + unitVolume (look unit) \<le> maxV")
    case True
    with Cons.prems show ?thesis by auto
  next
    case False
    with Cons.prems(1) obtain rest where
      r: "try_place look maxW maxV unit bs = Some rest" and b': "boxes' = b # rest"
      by auto
    from Cons.IH [OF r] b' show ?thesis by simp
  qed
qed

lemma place_unit_mset:
  "mset (concat (map items (place_unit look maxW maxV unit boxes)))
     = add_mset unit (mset (concat (map items boxes)))"
  by (cases "try_place look maxW maxV unit boxes")
     (simp_all add: place_unit_def try_place_mset)

lemma fold_place_unit_mset:
  "mset (concat (map items (fold (place_unit look maxW maxV) units boxes)))
     = mset units + mset (concat (map items boxes))"
  by (induction units arbitrary: boxes) (simp_all add: place_unit_mset)

lemma pack_units_mset:
  "mset (concat (map items (pack_units look maxW maxV expanded))) = mset expanded"
  by (simp add: pack_units_def fold_place_unit_mset mset_js_sort)

text \<open>
  C2. The multiset of units across all boxes returned by \<^verbatim>\<open>packForDelivery\<close> is the
  multiset got by expanding every input line of quantity \<open>N\<close> into \<open>N\<close> copies
  of quantity 1: no unit is lost and none is duplicated.
\<close>

theorem packForDelivery_units_preserved:
  "mset (concat (map items (packForDelivery cart options)))
     = mset (concat (map (\<lambda>it. replicate (nat (quantity it)) (it\<lparr>quantity := 1\<rparr>)) cart))"
  using expand_unit_copies [of cart]
  by (simp add: packForDelivery_def pack_units_mset unit_copies_def [abs_def])


lemma zero_unit_skips:
  assumes "unitWeight (look unit) = 0" and "unitVolume (look unit) = 0"
    and "\<not> (totalWeightKg b \<le> maxW \<and> totalVolumeCm3 b \<le> maxV)"
  shows "hd (place_unit look maxW maxV unit (b # boxes)) = b"
proof (cases "try_place look maxW maxV unit boxes")
  case None
  with assms show ?thesis by (simp add: place_unit_def)
next
  case (Some rest)
  with assms show ?thesis by (simp add: place_unit_def)
qed


text \<open>
  C3, as amended. In the loop body of the packer, a unit whose weight and volume are
  both zero goes into the first existing box whenever that box's running totals do not
  exceed the configured capacities.
\<close>

theorem zero_unit_first_box:
  assumes "unitWeight (look unit) = 0" and "unitVolume (look unit) = 0"
    and "totalWeightKg b \<le> maxW" and "totalVolumeCm3 b \<le> maxV"
  shows "place_unit look maxW maxV unit (b # boxes) = b\<lparr>items := items b @ [unit]\<rparr> # boxes"
  using assms by (simp add: place_unit_def)

theorem zero_unit_first_box_witness:
  "unitWeight (parcel 2 ''label'' None None 1) = 0
   \<and> unitVolume (parcel 2 ''label'' None None 1) = 0
   \<and> totalWeightKg \<lparr>boxId = 1, items = [parcel 1 ''squash'' (Some 9) None 1],
         totalWeightKg = 9, totalVolumeCm3 = 0\<rparr> \<le> 10
   \<and> totalVolumeCm3 \<lparr>boxId = 1, items = [parcel 1 ''squash'' (Some 9) None 1],
         totalWeightKg = 9, totalVolumeCm3 = 0\<rparr> \<le> 40000
   \<and> place_unit (\<lambda>unit. unit) 10 40000 (parcel 2 ''label'' None None 1)
        [\<lparr>boxId = 1, items = [parcel 1 ''squash'' (Some 9) None 1],
           totalWeightKg = 9, totalVolumeCm3 = 0\<rparr>]
      = [\<lparr>boxId = 1,
           items = [parcel 1 ''squash'' (Some 9) None 1, parcel 2 ''label'' None None 1],
           totalWeightKg = 9, totalVolumeCm3 = 0\<rparr>]"
proof -
  have w: "unitWeight (parcel 2 ''label'' None None 1) = 0"
    and v: "unitVolume (parcel 2 ''label'' None None 1) = 0"
    by (simp_all add: unitWeight_def unitVolume_def parcel_def)
  have bw: "totalWeightKg \<lparr>boxId = 1, items = [parcel 1 ''squash'' (Some 9) None 1],
         totalWeightKg = 9, totalVolumeCm3 = 0\<rparr> \<le> 10"
    and bv: "totalVolumeCm3 \<lparr>boxId = 1, items = [parcel 1 ''squash'' (Some 9) None 1],
         totalWeightKg = 9, totalVolumeCm3 = 0\<rparr> \<le> 40000"
    by simp_all
  show ?thesis
    using zero_unit_first_box [of "\<lambda>unit. unit" "parcel 2 ''label'' None None 1",
        OF w v bw bv, of "[]"] w v
    by simp
qed

text \<open>
  C3 as stated fails: a unit of zero weight and zero volume does not go into box 1
  when box 1 holds an oversized unit. With the default capacities, the 12 kg crate
  opens box 1 and the label is put into a new box 2.
\<close>

theorem zero_unit_not_in_full_box:
  "unitWeight (parcel 2 ''label'' None None 1) = 0
   \<and> unitVolume (parcel 2 ''label'' None None 1) = 0
   \<and> packForDelivery
        [parcel 1 ''crate'' (Some 12) None 1, parcel 2 ''label'' None None 1] None
      = [\<lparr>boxId = 1, items = [parcel 1 ''crate'' (Some 12) None 1],
           totalWeightKg = 12, totalVolumeCm3 = 0\<rparr>,
         \<lparr>boxId = 2, items = [parcel 2 ''label'' None None 1],
           totalWeightKg = 0, totalVolumeCm3 = 0\<rparr>]"
  by (simp add: pack_eval)

subsection \<open>The packer over the store\<close>

lemma expand_line_store_eq:
  "expand_line_store i it (objs, expanded)
     = (objs @ replicate (nat (quantity it - i)) (it\<lparr>quantity := 1\<rparr>),
        expanded @ [length objs ..< length objs + nat (quantity it - i)])"
proof (induction i it "(objs, expanded)" arbitrary: objs expanded rule: expand_line_store.induct)
  case (1 i it objs expanded)
  show ?case
  proof (cases "i < quantity it")
    case True
    then have n: "nat (quantity it - i) = Suc (nat (quantity it - (i + 1)))" by simp
    have "expand_line_store i it (objs, expanded)
        = expand_line_store (i + 1) it (objs @ [it\<lparr>quantity := 1\<rparr>], expanded @ [length objs])"
      using True by (subst expand_line_store.simps) simp
    also have "\<dots> = ((objs @ [it\<lparr>quantity := 1\<rparr>])
            @ replicate (nat (quantity it - (i + 1))) (it\<lparr>quantity := 1\<rparr>),
          (expanded @ [length objs])
            @ [length (objs @ [it\<lparr>quantity := 1\<rparr>])
                 ..< length (objs @ [it\<lparr>quantity := 1\<rparr>]) + nat (quantity it - (i + 1))])"
      using True by (rule 1)
    also have "\<dots> = (objs @ replicate (nat (quantity it - i)) (it\<lparr>quantity := 1\<rparr>),
        expanded @ [length objs ..< length objs + nat (quantity it - i)])"
      by (simp add: n upt_conv_Cons del: expand_line_store.simps)
    finally show ?thesis .
  next
    case False
    then show ?thesis by simp
  qed
qed

lemma fold_expand_store:
  assumes "\<forall>a \<in> set refs. a < length objs"
  shows "fold (\<lambda>a (objs', expanded). expand_line_store 0 (objs' ! a) (objs', expanded))
           refs (objs @ extra, expanded)
         = (objs @ extra @ concat (map (\<lambda>a. unit_copies (objs ! a)) refs),
            expanded @ [length objs + length extra ..<
              length objs + length extra
                + length (concat (map (\<lambda>a. unit_copies (objs ! a)) refs))])"
  using assms
proof (induction refs arbitrary: extra expanded)
  case Nil
  then show ?case by simp
next
  case (Cons a refs)
  let ?u = "unit_copies (objs ! a)"
  let ?rest = "concat (map (\<lambda>a. unit_copies (objs ! a)) refs)"
  from Cons.prems have a: "a < length objs" and refs: "\<forall>a \<in> set refs. a < length objs"
    by simp_all
  have step: "expand_line_store 0 ((objs @ extra) ! a) (objs @ extra, expanded)
      = (objs @ (extra @ ?u),
         expanded @ [length objs + length extra ..< length objs + length extra + length ?u])"
    using a by (simp add: expand_line_store_eq nth_append unit_copies_def
        del: expand_line_store.simps)
  have "fold (\<lambda>a (objs', expanded). expand_line_store 0 (objs' ! a) (objs', expanded))
           (a # refs) (objs @ extra, expanded)
      = fold (\<lambda>a (objs', expanded). expand_line_store 0 (objs' ! a) (objs', expanded))
           refs (objs @ (extra @ ?u),
             expanded @ [length objs + length extra ..< length objs + length extra + length ?u])"
    by (simp add: step del: expand_line_store.simps)
  also have "\<dots> = (objs @ (extra @ ?u) @ ?rest,
       (expanded @ [length objs + length extra ..< length objs + length extra + length ?u])
         @ [length objs + length (extra @ ?u) ..<
              length objs + length (extra @ ?u) + length ?rest])"
    by (rule Cons.IH [OF refs])
  also have "\<dots> = (objs @ extra @ concat (map (\<lambda>a. unit_copies (objs ! a)) (a # refs)),
       expanded @ [length objs + length extra ..<
          length objs + length extra
            + length (concat (map (\<lambda>a. unit_copies (objs ! a)) (a # refs)))])"
  proof -
    have "[length objs + length extra ..< length objs + length extra + length ?u]
          @ [length objs + length (extra @ ?u) ..<
              length objs + length (extra @ ?u) + length ?rest]
        = [length objs + length extra ..<
            length objs + length extra + (length ?u + length ?rest)]"
      using upt_add_eq_append [of "length objs + length extra"
          "length objs + length extra + length ?u" "length ?rest"]
      by (simp add: add.assoc)
    then show ?thesis by simp
  qed
  finally show ?case .
qed

lemma expand_store_eq:
  assumes "\<forall>a \<in> set refs. a < length objs"
  shows "expand_store objs refs
         = (objs @ expand (map (\<lambda>a. objs ! a) refs),
            [length objs ..< length objs + length (expand (map (\<lambda>a. objs ! a) refs))])"
  using fold_expand_store [OF assms, of "[]" "[]"]
  by (simp add: expand_store_def expand_unit_copies comp_def)

lemma nth_appended_range:
  "map (\<lambda>a. (xs @ ys) ! a) [length xs ..< length xs + length ys] = ys"
  by (rule nth_equalityI) (simp_all add: nth_append)

lemma quantity_expand: "u \<in> set (expand cart) \<Longrightarrow> quantity u = 1"
  by (auto simp: expand_unit_copies unit_copies_def)

lemma insort_cmp_map:
  "map f (insort_cmp (\<lambda>a b. c (f a) (f b)) x ys) = insort_cmp c (f x) (map f ys)"
  by (induction ys) simp_all

lemma js_sort_map: "map f (js_sort (\<lambda>a b. c (f a) (f b)) xs) = js_sort c (map f xs)"
  by (induction xs) (simp_all add: js_sort_def insort_cmp_map)

lemma box_values_sel:
  "totalWeightKg (box_values objs b) = totalWeightKg b"
  "totalVolumeCm3 (box_values objs b) = totalVolumeCm3 b"
  "items (box_values objs b) = map (\<lambda>a. objs ! a) (items b)"
  "boxId (box_values objs b) = boxId b"
  by (simp_all add: box_values_def)

lemma box_values_put:
  "box_values objs (b\<lparr>items := items b @ [unit], totalWeightKg := w, totalVolumeCm3 := v\<rparr>)
     = (box_values objs b)\<lparr>items := items (box_values objs b) @ [objs ! unit],
          totalWeightKg := w, totalVolumeCm3 := v\<rparr>"
  by (simp add: box_values_def)

lemma try_place_values:
  "try_place (\<lambda>unit. unit) maxW maxV (objs ! unit) (map (box_values objs) boxes)
     = map_option (map (box_values objs)) (try_place (\<lambda>a. objs ! a) maxW maxV unit boxes)"
proof (induction boxes)
  case Nil
  show ?case by simp
next
  case (Cons b bs)
  show ?case
  proof (cases "totalWeightKg b + unitWeight (objs ! unit) \<le> maxW
         \<and> totalVolumeCm3 b + unitVolume (objs ! unit) \<le> maxV")
    case True
    then show ?thesis
      by (simp add: box_values_sel box_values_put)
  next
    case False
    then show ?thesis
      by (cases "try_place (\<lambda>a. objs ! a) maxW maxV unit bs")
         (auto simp: box_values_sel Cons.IH)
  qed
qed

lemma place_unit_values:
  "map (box_values objs) (place_unit (\<lambda>a. objs ! a) maxW maxV unit boxes)
     = place_unit (\<lambda>unit. unit) maxW maxV (objs ! unit) (map (box_values objs) boxes)"
proof (cases "try_place (\<lambda>a. objs ! a) maxW maxV unit boxes")
  case None
  then have "try_place (\<lambda>unit. unit) maxW maxV (objs ! unit) (map (box_values objs) boxes) = None"
    by (simp add: try_place_values)
  with None show ?thesis by (simp add: place_unit_def box_values_def)
next
  case (Some boxes')
  then have "try_place (\<lambda>unit. unit) maxW maxV (objs ! unit) (map (box_values objs) boxes)
      = Some (map (box_values objs) boxes')"
    by (simp add: try_place_values)
  with Some show ?thesis by (simp add: place_unit_def)
qed

lemma fold_place_unit_values:
  "map (box_values objs) (fold (place_unit (\<lambda>a. objs ! a) maxW maxV) units boxes)
     = fold (place_unit (\<lambda>unit. unit) maxW maxV) (map (\<lambda>a. objs ! a) units)
         (map (box_values objs) boxes)"
  by (induction units arbitrary: boxes) (simp_all add: place_unit_values)

lemma pack_units_values:
  "map (box_values objs) (pack_units (\<lambda>a. objs ! a) maxW maxV expanded)
     = pack_units (\<lambda>unit. unit) maxW maxV (map (\<lambda>a. objs ! a) expanded)"
  by (simp add: pack_units_def fold_place_unit_values
      js_sort_map [of "\<lambda>a. objs ! a" "\<lambda>a b. metric b - metric a", symmetric])


lemma pack_units_set:
  "set (concat (map items (pack_units look maxW maxV expanded))) = set expanded"
  using pack_units_mset [of look maxW maxV expanded, THEN arg_cong, of set_mset]
  by (simp del: set_concat)

text \<open>
  C10. \<^verbatim>\<open>packForDelivery\<close> is read-only with respect to the cart: after the call the
  array of lines and every line object are as before (same lines, same quantities, same
  order), and the boxes hold newly allocated copies of quantity 1, none of them an
  original line object. Read through the store, the boxes are those of the value view.
\<close>

theorem packForDelivery_read_only:
  assumes wf: "\<forall>a \<in> set (itemsRef st). a < length (objects st)"
    and run: "packForDelivery_store st options = (boxes, st')"
  shows "itemsRef st' = itemsRef st
       \<and> take (length (objects st)) (objects st') = objects st
       \<and> map (\<lambda>a. objects st' ! a) (itemsRef st') = map (\<lambda>a. objects st ! a) (itemsRef st)
       \<and> (\<forall>b \<in> set boxes. \<forall>a \<in> set (items b).
            length (objects st) \<le> a \<and> a < length (objects st') \<and> a \<notin> set (itemsRef st)
            \<and> quantity (objects st' ! a) = 1)
       \<and> map (box_values (objects st')) boxes
           = packForDelivery (map (\<lambda>a. objects st ! a) (itemsRef st)) options"
proof -
  let ?cart = "map (\<lambda>a. objects st ! a) (itemsRef st)"
  let ?objs = "objects st @ expand ?cart"
  let ?ex = "[length (objects st) ..< length (objects st) + length (expand ?cart)]"
  have es: "expand_store (objects st) (itemsRef st) = (?objs, ?ex)"
    by (rule expand_store_eq [OF wf])
  from run es have boxes: "boxes
      = pack_units (\<lambda>a. ?objs ! a) (maxWeightKg_of options) (maxVolumeCm3_of options) ?ex"
    and st': "st' = st\<lparr>objects := ?objs\<rparr>"
    by (simp_all add: packForDelivery_store_def)
  have p1: "itemsRef st' = itemsRef st" and p2: "take (length (objects st)) (objects st') = objects st"
    by (simp_all add: st')
  have p3: "map (\<lambda>a. objects st' ! a) (itemsRef st') = ?cart"
    using wf by (simp add: st' nth_append)
  have p4: "\<forall>b \<in> set boxes. \<forall>a \<in> set (items b).
            length (objects st) \<le> a \<and> a < length (objects st') \<and> a \<notin> set (itemsRef st)
            \<and> quantity (objects st' ! a) = 1"
  proof (intro ballI)
    fix b a
    assume b: "b \<in> set boxes" and a: "a \<in> set (items b)"
    then have "a \<in> set (concat (map items boxes))" by auto
    then have "a \<in> set ?ex"
      by (simp only: boxes pack_units_set)
    then have lo: "length (objects st) \<le> a"
      and hi: "a < length (objects st) + length (expand ?cart)"
      by simp_all
    from lo hi have "?objs ! a = expand ?cart ! (a - length (objects st))"
      and "a - length (objects st) < length (expand ?cart)"
      by (simp_all add: nth_append)
    then have "?objs ! a \<in> set (expand ?cart)" by simp
    then have "quantity (?objs ! a) = 1" by (rule quantity_expand)
    moreover from lo wf have "a \<notin> set (itemsRef st)" by auto
    ultimately show "length (objects st) \<le> a \<and> a < length (objects st')
        \<and> a \<notin> set (itemsRef st) \<and> quantity (objects st' ! a) = 1"
      using lo hi by (simp add: st')
  qed
  have "map (box_values ?objs) boxes
      = pack_units (\<lambda>unit. unit) (maxWeightKg_of options) (maxVolumeCm3_of options)
          (map (\<lambda>a. ?objs ! a) ?ex)"
    by (simp only: boxes pack_units_values)
  also have "map (\<lambda>a. ?objs ! a) ?ex = expand ?cart"
    by (rule nth_appended_range)
  finally have p5: "map (box_values (objects st')) boxes = packForDelivery ?cart options"
    by (simp add: st' packForDelivery_def)
  from p1 p2 p3 p4 p5 show ?thesis by blast
qed



theorem packForDelivery_read_only_witness:
  "itemsRef sample_store = [1, 0] \<and> length (objects sample_store) = 2
   \<and> packForDelivery_store sample_store None = (sample_boxes, sample_store_after)
   \<and> itemsRef sample_store_after = itemsRef sample_store
   \<and> take (length (objects sample_store)) (objects sample_store_after) = objects sample_store
   \<and> map (\<lambda>a. objects sample_store_after ! a) (itemsRef sample_store_after)
       = map (\<lambda>a. objects sample_store ! a) (itemsRef sample_store)
   \<and> items (sample_boxes ! 0) = [3, 4, 2]
   \<and> length (objects sample_store) \<le> 3 \<and> 3 < length (objects sample_store_after)
   \<and> 3 \<notin> set (itemsRef sample_store) \<and> quantity (objects sample_store_after ! 3) = 1
   \<and> map (box_values (objects sample_store_after)) sample_boxes
       = packForDelivery (map (\<lambda>a. objects sample_store ! a) (itemsRef sample_store)) None"
proof -
  have refs: "itemsRef sample_store = [1, 0]" and len: "length (objects sample_store) = 2"
    by (simp_all add: sample_store_def)
  then have wf: "\<forall>a \<in> set (itemsRef sample_store). a < length (objects sample_store)"
    by simp
  have run: "packForDelivery_store sample_store None = (sample_boxes, sample_store_after)"
    by (simp add: packForDelivery_store_def expand_store_eq sample_store_def pack_units_def
        place_unit_def expand_unit_copies unit_copies_def js_sort_def metric_def
        unitWeight_def unitVolume_def parcel_def maxWeightKg_of_def maxVolumeCm3_of_def
        sample_boxes_def sample_store_after_def eval_nat_numeral)
  have its: "items (sample_boxes ! 0) = [3, 4, 2]"
    and mem: "sample_boxes ! 0 \<in> set sample_boxes" "3 \<in> set (items (sample_boxes ! 0))"
    by (simp_all add: sample_boxes_def)
  show ?thesis
    using packForDelivery_read_only [OF wf run] refs len run its mem
    by blast
qed

section \<open>Properties of the recommendation scorer\<close>

lemmas rec_eval = useRecommendations_def localCompute_def localRecs_def nonEmptyCartRecs_def
  boughtTogether_def browsingHistoryRecs_def coPurchaseFreq_def mockPurchaseHistory_def
  push_def cartIds_def purchasedIdSet_def productById_def MIN_of_def MAX_of_def
  browsing_of_def purchased_of_def js_sort_def compareRecs_def slice0_def
  catalog_product_def sample_line_def mapped_def

subsection \<open>Length of the result\<close>

lemma length_slice0: "0 \<le> e \<Longrightarrow> length (slice0 e xs) \<le> nat e"
  by (simp add: slice0_def)

lemma length_slice0_le: "length (slice0 e xs) \<le> length xs"
  by (simp add: slice0_def)


lemma localCompute_length:
  assumes "0 \<le> MAX_of options"
  shows "length (localCompute localeCompare draw cartItems allProducts options)
           \<le> nat (max (MIN_of options) (MAX_of options))"
proof -
  let ?rs = "localRecs localeCompare draw cartItems allProducts options"
  let ?e = "max (MIN_of options) (min (MAX_of options) (int (length ?rs)))"
  have "0 \<le> ?e" using assms by simp
  then have "length (slice0 ?e ?rs) \<le> nat ?e" by (rule length_slice0)
  also have "nat ?e \<le> nat (max (MIN_of options) (MAX_of options))" by simp
  finally show ?thesis by (simp add: localCompute_def)
qed

lemma useRecommendations_length:
  assumes "0 \<le> MAX_of options"
  shows "length (useRecommendations localeCompare draw remote cartItems allProducts options)
           \<le> nat (max (MIN_of options) (MAX_of options))"
proof (cases "\<exists>res. remote = Some res \<and> length (mapped allProducts res) > 0")
  case True
  then obtain res where r: "remote = Some res" "length (mapped allProducts res) > 0" by blast
  have "length (slice0 (MAX_of options) (mapped allProducts res)) \<le> nat (MAX_of options)"
    using assms by (rule length_slice0)
  with r show ?thesis by (simp add: useRecommendations_def)
next
  case False
  then have "useRecommendations localeCompare draw remote cartItems allProducts options
      = localCompute localeCompare draw cartItems allProducts options"
    by (cases remote) (simp_all add: useRecommendations_def)
  with localCompute_length [OF assms] show ?thesis by simp
qed

lemma useRecommendations_length_consistent:
  assumes "0 \<le> MAX_of options" and "MIN_of options \<le> MAX_of options"
  shows "length (useRecommendations localeCompare draw remote cartItems allProducts options)
           \<le> nat (MAX_of options)"
  using useRecommendations_length [OF assms(1), of localeCompare draw remote cartItems allProducts]
    assms(2) by (simp add: max_def)

lemma localCompute_no_padding:
  "length (localCompute localeCompare draw cartItems allProducts options)
     \<le> length (localRecs localeCompare draw cartItems allProducts options)"
  by (simp add: localCompute_def length_slice0_le)

text \<open>
  C5. The result is not always at most \<open>maxRecommendations\<close> long. The number of
  entries kept is \<^verbatim>\<open>Math.max(MIN, Math.min(MAX, recs.length))\<close>, so a minimum above the
  maximum wins: with \<open>maxRecommendations = 1\<close> and the default minimum 5, a cart
  holding product 1 and a catalog with products 2 and 3 gives two recommendations. (With
  \<open>MIN \<le> MAX\<close> the bound holds, and nothing is ever padded: the lemmas above.)
\<close>

theorem useRecommendations_exceeds_max:
  "MAX_of only_one = 1 \<and> MIN_of only_one = 5
   \<and> useRecommendations localeCompare draw None [sample_line 1 ''kale'' 90 2]
       [catalog_product 2 ''beet'' ''roots'' None, catalog_product 3 ''corn'' ''grain'' None]
       only_one
     = [\<lparr>product = catalog_product 2 ''beet'' ''roots'' None,
          reason = ''bought together'', score = 3\<rparr>,
        \<lparr>product = catalog_product 3 ''corn'' ''grain'' None,
          reason = ''bought together'', score = 2\<rparr>]
   \<and> length (useRecommendations localeCompare draw None [sample_line 1 ''kale'' 90 2]
       [catalog_product 2 ''beet'' ''roots'' None, catalog_product 3 ''corn'' ''grain'' None]
       only_one) = 2"
  by (simp add: rec_eval only_one_def)

subsection \<open>Exclusion of cart and purchased products\<close>


















end
